theory Spec2Isabelle
  imports Complex_Main
begin

section \<open>Strings and numbers of the source language\<close>

text \<open>
  A string of the program is a \<open>string\<close> (a list of characters). The operations
  modelled here (\<open>split(' ')\<close>, \<open>slice(0, 6)\<close>, \<open>join(' ')\<close>, concatenation, the test
  for the empty string) only look at the ASCII characters space and full stop, so a
  character outside ASCII is written as its UTF-8 bytes.
\<close>

text \<open>\<open>s.split(sep)\<close> for a one-character separator: \<open>''.split(' ')\<close> is \<open>['']\<close>,
  every occurrence of the separator ends a piece (pieces may be empty).\<close>

fun split :: "char \<Rightarrow> string \<Rightarrow> string list" where
  "split sep [] = [[]]"
| "split sep (c # cs) =
     (if c = sep then [] # split sep cs
      else (case split sep cs of
              p # ps \<Rightarrow> (c # p) # ps
            | [] \<Rightarrow> [[c]]))"

text \<open>\<open>pieces.join(sep)\<close>.\<close>

fun join :: "string \<Rightarrow> string list \<Rightarrow> string" where
  "join sep [] = []"
| "join sep [p] = p"
| "join sep (p # q # ps) = p @ sep @ join sep (q # ps)"

text \<open>\<open>xs.slice(0, n)\<close> on an array.\<close>

definition slice0 :: "nat \<Rightarrow> 'a list \<Rightarrow> 'a list" where
  "slice0 n xs = take n xs"

text \<open>The decimal rendering of an integer inside a template literal.\<close>

definition digit_char :: "nat \<Rightarrow> char" where
  "digit_char d = ''0123456789'' ! (d mod 10)"

fun show_nat :: "nat \<Rightarrow> string" where
  "show_nat n = (if n < 10 then [digit_char n] else show_nat (n div 10) @ [digit_char (n mod 10)])"

declare show_nat.simps [simp del]

definition show_int :: "int \<Rightarrow> string" where
  "show_int i = (if i < 0 then CHR ''-'' # show_nat (nat (- i)) else show_nat (nat i))"

section \<open>Data model (core.ts)\<close>

datatype apiProvider = openai | anthropic | openrouter | local_provider

record ClineConfig =
  apiProvider :: apiProvider
  apiKey :: "string option"
  apiUrl :: "string option"
  model :: string
  maxTokens :: "real option"
  temperature :: "real option"

text \<open>\<open>Partial<ClineConfig>\<close>: \<open>None\<close> is a key that the object does not have. For an
  optional field a present key may hold \<open>undefined\<close> (the inner \<open>None\<close>).\<close>

record PartialClineConfig =
  p_apiProvider :: "apiProvider option"
  p_apiKey :: "string option option"
  p_apiUrl :: "string option option"
  p_model :: "string option"
  p_maxTokens :: "real option option"
  p_temperature :: "real option option"

datatype message_type = user | assistant | system | tool

text \<open>The only metadata the controller ever builds is \<open>{ images }\<close>.\<close>

datatype metadata = Metadata (metadata_images: "string list")

text \<open>A \<open>Date\<close> is its number of milliseconds. Reading \<open>metadata\<close> of a message gives
  \<open>undefined\<close> (\<open>None\<close>) both when the field was written as \<open>undefined\<close> and when the
  object literal has no such field.\<close>

record ClineMessage =
  msg_id :: string
  msg_type :: message_type
  content :: string
  timestamp :: int
  metadata :: "metadata option"

datatype task_status = active | completed | failed

record ClineTask =
  task_id :: string
  title :: string
  messages :: "ClineMessage list"
  status :: task_status
  createdAt :: int
  updatedAt :: int

section \<open>State of the controller and of its environment\<close>

text \<open>
  Task objects are shared: \<open>currentTask\<close>, the elements of \<open>tasks\<close> and the value
  returned by \<open>startNewTask\<close> are references to the same object. They live in a store
  \<open>heap\<close>; a reference is an index into it and a new object is appended at the end.
  The system clock is an oracle \<open>clk\<close>: the \<open>n\<close>-th read of the clock (by \<open>Date.now()\<close>
  or \<open>new Date()\<close>) returns \<open>clk n\<close>, and \<open>ticks\<close> counts the reads made so far.
  \<open>console\<close> is what has been written by \<open>console.log\<close> and \<open>console.error\<close>.
\<close>

type_synonym ref = nat

type_synonym clock = "nat \<Rightarrow> int"

datatype error = Error string | TypeError string

datatype log_entry =
    LogConfig string ClineConfig
  | Log string
  | LogError string error

record state =
  config :: ClineConfig
  currentTask :: "ref option"
  tasks :: "ref list"
  heap :: "ClineTask list"
  ticks :: nat
  console :: "log_entry list"

definition now :: "clock \<Rightarrow> state \<Rightarrow> int \<times> state" where
  "now clk s = (clk (ticks s), s\<lparr>ticks := ticks s + 1\<rparr>)"

text \<open>\<open>new ClineCore(config)\<close> in a fresh process.\<close>

definition new_ClineCore :: "ClineConfig \<Rightarrow> state" where
  "new_ClineCore cfg =
     \<lparr>config = cfg, currentTask = None, tasks = [], heap = [], ticks = 0, console = []\<rparr>"

text \<open>\<open>task.messages.push(m)\<close> and \<open>task.updatedAt = t\<close> through the reference \<open>r\<close>.\<close>

definition push_message :: "ref \<Rightarrow> ClineMessage \<Rightarrow> state \<Rightarrow> state" where
  "push_message r m s =
     s\<lparr>heap := (heap s)[r := (heap s ! r)\<lparr>messages := messages (heap s ! r) @ [m]\<rparr>]\<rparr>"

definition set_updatedAt :: "ref \<Rightarrow> int \<Rightarrow> state \<Rightarrow> state" where
  "set_updatedAt r t s = s\<lparr>heap := (heap s)[r := (heap s ! r)\<lparr>updatedAt := t\<rparr>]\<rparr>"

section \<open>The controller (class ClineCore)\<close>

definition generateTaskTitle :: "string \<Rightarrow> string" where
  "generateTaskTitle message =
     (let words = slice0 6 (split CHR '' '' message)
      in join '' '' words @ (if length (split CHR '' '' message) > 6 then ''...'' else []))"

definition initialize :: "state \<Rightarrow> state" where
  "initialize s = s\<lparr>console := console s @ [LogConfig ''Initializing Cline with config:'' (config s)]\<rparr>"

text \<open>An absent argument is \<open>None\<close>; the test \<open>initialMessage ? ... : ...\<close> is false for
  an absent argument and for the empty string.\<close>

definition startNewTask :: "clock \<Rightarrow> string option \<Rightarrow> state \<Rightarrow> ref \<times> state" where
  "startNewTask clk initialMessage s0 =
     (let (t_id, s1) = now clk s0;
          (t_created, s2) = now clk s1;
          (t_updated, s3) = now clk s2;
          task = \<lparr>task_id = ''task-'' @ show_int t_id,
                  title = (case initialMessage of
                             None \<Rightarrow> ''New Task''
                           | Some m \<Rightarrow> if m \<noteq> [] then generateTaskTitle m else ''New Task''),
                  messages = [],
                  status = active,
                  createdAt = t_created,
                  updatedAt = t_updated\<rparr>;
          r = length (heap s3);
          s4 = s3\<lparr>heap := heap s3 @ [task]\<rparr>;
          s7 = (case initialMessage of
                  None \<Rightarrow> s4
                | Some m \<Rightarrow>
                    if m \<noteq> [] then
                      (let (m_id, s5) = now clk s4;
                           (m_ts, s6) = now clk s5
                       in push_message r
                            \<lparr>msg_id = ''msg-'' @ show_int m_id, msg_type = user, content = m,
                             timestamp = m_ts, metadata = None\<rparr> s6)
                    else s4)
      in (r, s7\<lparr>currentTask := Some r, tasks := tasks s7 @ [r]\<rparr>))"

definition sendMessage ::
  "clock \<Rightarrow> string \<Rightarrow> string list option \<Rightarrow> state \<Rightarrow> (error + ClineMessage) \<times> state" where
  "sendMessage clk text images s0 =
     (case currentTask s0 of
        None \<Rightarrow> (Inl (Error ''No active task. Start a new task first.''), s0)
      | Some r \<Rightarrow>
          (let (u_id, s1) = now clk s0;
               (u_ts, s2) = now clk s1;
               userMessage =
                 \<lparr>msg_id = ''msg-'' @ show_int u_id, msg_type = user, content = text,
                  timestamp = u_ts,
                  metadata = (case images of None \<Rightarrow> None | Some imgs \<Rightarrow> Some (Metadata imgs))\<rparr>;
               s3 = push_message r userMessage s2;
               (t_upd, s4) = now clk s3;
               s5 = set_updatedAt r t_upd s4;
               (a_id, s6) = now clk s5;
               (a_ts, s7) = now clk s6;
               assistantMessage =
                 \<lparr>msg_id = ''msg-'' @ show_int (a_id + 1), msg_type = assistant,
                  content = ''I received your message: '' @ [CHR 0x22] @ text @ [CHR 0x22] @
                    ''. This is a placeholder response. The full implementation would process this through the Cline core logic.'',
                  timestamp = a_ts, metadata = None\<rparr>;
               s8 = push_message r assistantMessage s7
           in (Inr assistantMessage, s8)))"

definition getCurrentTask :: "state \<Rightarrow> ref option" where
  "getCurrentTask s = currentTask s"

definition getTasks :: "state \<Rightarrow> ref list" where
  "getTasks s = tasks s"

text \<open>\<open>{ ...this.config, ...newConfig }\<close>: every key of \<open>newConfig\<close> replaces the stored one.\<close>

definition updateConfig :: "PartialClineConfig \<Rightarrow> state \<Rightarrow> state" where
  "updateConfig newConfig s =
     s\<lparr>config :=
         \<lparr>apiProvider = (case p_apiProvider newConfig of None \<Rightarrow> apiProvider (config s) | Some v \<Rightarrow> v),
          apiKey = (case p_apiKey newConfig of None \<Rightarrow> apiKey (config s) | Some v \<Rightarrow> v),
          apiUrl = (case p_apiUrl newConfig of None \<Rightarrow> apiUrl (config s) | Some v \<Rightarrow> v),
          model = (case p_model newConfig of None \<Rightarrow> model (config s) | Some v \<Rightarrow> v),
          maxTokens = (case p_maxTokens newConfig of None \<Rightarrow> maxTokens (config s) | Some v \<Rightarrow> v),
          temperature = (case p_temperature newConfig of None \<Rightarrow> temperature (config s) | Some v \<Rightarrow> v)\<rparr>\<rparr>"

section \<open>The host object\<close>

text \<open>
  The source types \<open>jupyterLabAPI\<close> as \<open>any\<close>. These records hold the fields that
  the adapter and the host provider read; a field that may be missing or \<open>null\<close> is an
  \<open>option\<close>. \<open>cell_language\<close> is the value of \<open>cell.metadata.get('language')\<close>.
\<close>

record editor =
  getSelectedText :: string

record cell_widget =
  source :: "string option"
  editor :: "editor option"

record cell_model =
  cell_type :: string
  cell_text :: string
  cell_language :: "string option"

record document_model =
  model_type :: "string option"
  cells :: "cell_model list"
  model_value :: "string option"

record widget_content =
  doc_model :: "document_model option"
  activeCell :: "cell_widget option"

record widget =
  widget_content :: "widget_content option"
  context_path :: "string option"

record shell =
  currentWidget :: "widget option"

record jupyterLabAPI =
  shell :: "shell option"

section \<open>The adapter (class ClineJupyterLabAdapter)\<close>

definition getCurrentNotebook :: "jupyterLabAPI \<Rightarrow> widget option" where
  "getCurrentNotebook api = (case shell api of None \<Rightarrow> None | Some sh \<Rightarrow> currentWidget sh)"

definition getSelectedCell :: "jupyterLabAPI \<Rightarrow> cell_widget option" where
  "getSelectedCell api =
     (case getCurrentNotebook api of
        None \<Rightarrow> None
      | Some notebook \<Rightarrow>
          (case widget_content notebook of None \<Rightarrow> None | Some c \<Rightarrow> activeCell c))"

text \<open>\<open>cell?.editor?.getSelectedText() || null\<close>: an empty selection is \<open>null\<close> too.\<close>

definition getSelectedCode :: "jupyterLabAPI \<Rightarrow> string option" where
  "getSelectedCode api =
     (case getSelectedCell api of
        None \<Rightarrow> None
      | Some cell \<Rightarrow>
          (case editor cell of
             None \<Rightarrow> None
           | Some ed \<Rightarrow> if getSelectedText ed \<noteq> [] then Some (getSelectedText ed) else None))"

definition analyzeNotebookStructure :: "widget \<Rightarrow> string" where
  "analyzeNotebookStructure notebook =
     ''Notebook analysis: The notebook contains code cells with data processing logic. Consider adding documentation and error handling.''"

text \<open>\<open>code.length\<close> and \<open>code.slice(0, 100)\<close> count UTF-16 code units in the source
  and the elements of the list here; the two agree on ASCII text.\<close>

definition explainCode :: "string \<Rightarrow> string" where
  "explainCode code =
     ''This code performs: '' @
     (if length code > 100 then ''complex operations'' else ''basic operations'') @
     ''. '' @ take 100 code @ ''...''"

definition optimizeCode :: "string \<Rightarrow> string" where
  "optimizeCode code =
     ''# Optimized version'' @ [CHR 0x0A] @ code @ [CHR 0x0A] @
     ''# TODO: Add actual optimization logic''"

text \<open>\<open>await this.sendMessage(text)\<close> as a statement: the reply is dropped, a rejection
  is thrown on.\<close>

definition await_sendMessage :: "clock \<Rightarrow> string \<Rightarrow> state \<Rightarrow> (error + unit) \<times> state" where
  "await_sendMessage clk text s =
     (case sendMessage clk text None s of
        (Inl err, s') \<Rightarrow> (Inl err, s')
      | (Inr reply, s') \<Rightarrow> (Inr (), s'))"

text \<open>\<open>try { body } catch (error) { console.error(label, error); }\<close>\<close>

definition try_catch_console_error ::
  "(state \<Rightarrow> (error + unit) \<times> state) \<Rightarrow> string \<Rightarrow> state \<Rightarrow> (error + unit) \<times> state" where
  "try_catch_console_error body label s =
     (case body s of
        (Inl err, s') \<Rightarrow> (Inr (), s'\<lparr>console := console s' @ [LogError label err]\<rparr>)
      | (Inr v, s') \<Rightarrow> (Inr v, s'))"

definition analyzeCurrentNotebook ::
  "clock \<Rightarrow> jupyterLabAPI \<Rightarrow> state \<Rightarrow> (error + unit) \<times> state" where
  "analyzeCurrentNotebook clk api =
     try_catch_console_error
       (\<lambda>s. case getCurrentNotebook api of
               None \<Rightarrow> (Inl (Error ''No active notebook found''), s)
             | Some notebook \<Rightarrow>
                 (let analysis = analyzeNotebookStructure notebook
                  in await_sendMessage clk
                       (''I'' @ [CHR 0x27] @ ''ve analyzed your notebook. Here'' @ [CHR 0x27] @
                        ''s what I found:'' @ [CHR 0x0A, CHR 0x0A] @ analysis) s))
       ''Failed to analyze notebook:''"

text \<open>\<open>cell.source\<close> is passed to \<open>explainCode\<close>, which reads its \<open>length\<close>: that
  throws a \<open>TypeError\<close> when the cell has no \<open>source\<close>.\<close>

definition explainSelectedCell ::
  "clock \<Rightarrow> jupyterLabAPI \<Rightarrow> state \<Rightarrow> (error + unit) \<times> state" where
  "explainSelectedCell clk api =
     try_catch_console_error
       (\<lambda>s. case getSelectedCell api of
               None \<Rightarrow> (Inl (Error ''No cell selected''), s)
             | Some cell \<Rightarrow>
                 (case source cell of
                    None \<Rightarrow>
                      (Inl (TypeError (''Cannot read properties of undefined (reading '' @
                                        [CHR 0x27] @ ''length'' @ [CHR 0x27] @ '')'')), s)
                  | Some code \<Rightarrow>
                      (let explanation = explainCode code
                       in await_sendMessage clk
                            (''Here'' @ [CHR 0x27] @ ''s an explanation of the selected cell:'' @
                             [CHR 0x0A, CHR 0x0A] @ explanation) s)))
       ''Failed to explain cell:''"

definition optimizeSelectedCode ::
  "clock \<Rightarrow> jupyterLabAPI \<Rightarrow> state \<Rightarrow> (error + unit) \<times> state" where
  "optimizeSelectedCode clk api =
     try_catch_console_error
       (\<lambda>s. case getSelectedCode api of
               None \<Rightarrow> (Inl (Error ''No code selected''), s)
             | Some selection \<Rightarrow>
                 (let optimized = optimizeCode selection
                  in await_sendMessage clk
                       (''Here'' @ [CHR 0x27] @ ''s the optimized version of your code:'' @
                        [CHR 0x0A, CHR 0x0A] @ ''```python'' @ [CHR 0x0A] @ optimized @
                        [CHR 0x0A] @ ''```'') s))
       ''Failed to optimize code:''"

section \<open>The host provider (class JupyterLabHostProvider)\<close>

record document =
  path :: string
  doc_content :: string
  language :: string

text \<open>The loop over \<open>cells\<close> of \<open>getActiveDocument\<close>: \<open>i\<close> is the loop index, the pair
  holds the variables \<open>content\<close> and \<open>language\<close> of the source.\<close>

fun notebook_cells_loop :: "nat \<Rightarrow> cell_model list \<Rightarrow> string \<times> string \<Rightarrow> string \<times> string" where
  "notebook_cells_loop i [] (cont, lang) = (cont, lang)"
| "notebook_cells_loop i (cell # rest) (cont, lang) =
     (if cell_type cell = ''code'' then
        (let cont' = cont @ ''# Cell '' @ show_nat (i + 1) @ [CHR 0x0A] @
                     cell_text cell @ [CHR 0x0A, CHR 0x0A];
             lang' =
               (case cell_language cell of
                  None \<Rightarrow> lang
                | Some l \<Rightarrow> if lang = ''python'' \<and> l \<noteq> [] then l else lang)
         in notebook_cells_loop (i + 1) rest (cont', lang'))
      else notebook_cells_loop (i + 1) rest (cont, lang))"

definition languageMap :: "(string \<times> string) list" where
  "languageMap =
     [(''py'', ''python''), (''js'', ''javascript''), (''ts'', ''typescript''),
      (''md'', ''markdown''), (''json'', ''json''), (''yaml'', ''yaml''), (''yml'', ''yaml'')]"

text \<open>\<open>x || d\<close> on a string that may be missing.\<close>

definition or_default :: "string option \<Rightarrow> string \<Rightarrow> string" where
  "or_default x d = (case x of None \<Rightarrow> d | Some v \<Rightarrow> if v \<noteq> [] then v else d)"

text \<open>In the branch of regular files a key of \<open>languageMap\<close> is looked up among the
  seven entries of the literal only.\<close>

definition getActiveDocument :: "jupyterLabAPI \<Rightarrow> document option" where
  "getActiveDocument api =
     (case (case shell api of None \<Rightarrow> None | Some sh \<Rightarrow> currentWidget sh) of
        None \<Rightarrow> None
      | Some w \<Rightarrow>
          (case (case widget_content w of None \<Rightarrow> None | Some c \<Rightarrow> doc_model c) of
             None \<Rightarrow> None
           | Some m \<Rightarrow>
               if model_type m = Some ''notebook'' then
                 (let (cont, lang) = notebook_cells_loop 0 (cells m) ([], ''python'')
                  in Some \<lparr>path = or_default (context_path w) ''untitled.ipynb'',
                           doc_content = cont, language = lang\<rparr>)
               else
                 (case model_value m of
                    None \<Rightarrow> None
                  | Some text \<Rightarrow>
                      (let p = or_default (context_path w) ''untitled'';
                           extension = or_default (Some (last (split CHR ''.'' p))) []
                       in Some \<lparr>path = p, doc_content = text,
                                language = or_default (map_of languageMap extension) ''text''\<rparr>))))"

section \<open>Runs of the controller\<close>

text \<open>The calls a client can make on a controller (the three commands of the adapter
  come with the host object as it is at the time of the call), and a run of such calls
  in sequence. The returned values are dropped here: only the state after the call is
  kept.\<close>

datatype op =
    Initialize
  | StartNewTask "string option"
  | SendMessage string "string list option"
  | GetCurrentTask
  | GetTasks
  | UpdateConfig PartialClineConfig
  | AnalyzeCurrentNotebook jupyterLabAPI
  | ExplainSelectedCell jupyterLabAPI
  | OptimizeSelectedCode jupyterLabAPI

fun step :: "clock \<Rightarrow> op \<Rightarrow> state \<Rightarrow> state" where
  "step clk Initialize s = initialize s"
| "step clk (StartNewTask initialMessage) s = snd (startNewTask clk initialMessage s)"
| "step clk (SendMessage text images) s = snd (sendMessage clk text images s)"
| "step clk GetCurrentTask s = s"
| "step clk GetTasks s = s"
| "step clk (UpdateConfig newConfig) s = updateConfig newConfig s"
| "step clk (AnalyzeCurrentNotebook api) s = snd (analyzeCurrentNotebook clk api s)"
| "step clk (ExplainSelectedCell api) s = snd (explainSelectedCell clk api s)"
| "step clk (OptimizeSelectedCode api) s = snd (optimizeSelectedCode clk api s)"

fun run :: "clock \<Rightarrow> op list \<Rightarrow> state \<Rightarrow> state" where
  "run clk [] s = s"
| "run clk (c # cs) s = run clk cs (step clk c s)"

fun is_StartNewTask :: "op \<Rightarrow> bool" where
  "is_StartNewTask (StartNewTask initialMessage) = True"
| "is_StartNewTask c = False"

text \<open>Every reference held by the controller points to an object of the store.\<close>

definition wf :: "state \<Rightarrow> bool" where
  "wf s \<longleftrightarrow>
     list_all (\<lambda>r. r < length (heap s)) (tasks s) \<and>
     (case currentTask s of None \<Rightarrow> True | Some r \<Rightarrow> r < length (heap s))"

section \<open>Names used in the statements\<close>

text \<open>The errors of the specification are the \<open>Error\<close> objects that the code throws.\<close>

definition NoActiveTaskError :: error where
  "NoActiveTaskError = Error ''No active task. Start a new task first.''"

definition MissingContextError :: "string \<Rightarrow> error" where
  "MissingContextError what = Error what"

text \<open>The two messages that a call of \<open>sendMessage\<close> builds when it is made in state
  \<open>s\<close>, and the task object that a call of \<open>startNewTask\<close> leaves in the store.\<close>

definition userMessage_of :: "clock \<Rightarrow> string \<Rightarrow> string list option \<Rightarrow> state \<Rightarrow> ClineMessage" where
  "userMessage_of clk text images s =
     \<lparr>msg_id = ''msg-'' @ show_int (clk (ticks s)), msg_type = user, content = text,
      timestamp = clk (ticks s + 1),
      metadata = (case images of None \<Rightarrow> None | Some imgs \<Rightarrow> Some (Metadata imgs))\<rparr>"

definition assistantMessage_of :: "clock \<Rightarrow> string \<Rightarrow> state \<Rightarrow> ClineMessage" where
  "assistantMessage_of clk text s =
     \<lparr>msg_id = ''msg-'' @ show_int (clk (ticks s + 3) + 1), msg_type = assistant,
      content = ''I received your message: '' @ [CHR 0x22] @ text @ [CHR 0x22] @
        ''. This is a placeholder response. The full implementation would process this through the Cline core logic.'',
      timestamp = clk (ticks s + 4), metadata = None\<rparr>"

definition initial_task :: "clock \<Rightarrow> string option \<Rightarrow> state \<Rightarrow> ClineTask" where
  "initial_task clk initialMessage s =
     \<lparr>task_id = ''task-'' @ show_int (clk (ticks s)),
      title = (case initialMessage of
                 None \<Rightarrow> ''New Task''
               | Some m \<Rightarrow> if m \<noteq> [] then generateTaskTitle m else ''New Task''),
      messages = (case initialMessage of
                    None \<Rightarrow> []
                  | Some m \<Rightarrow>
                      if m \<noteq> [] then
                        [\<lparr>msg_id = ''msg-'' @ show_int (clk (ticks s + 3)), msg_type = user,
                          content = m, timestamp = clk (ticks s + 4), metadata = None\<rparr>]
                      else []),
      status = active,
      createdAt = clk (ticks s + 1),
      updatedAt = clk (ticks s + 2)\<rparr>"

text \<open>\<open>t'\<close> is a later state of the task object \<open>t\<close>: same identity, title, status and
  creation time, and the messages of \<open>t\<close> are the first messages of \<open>t'\<close>, in the same
  order.\<close>

definition same_task :: "ClineTask \<Rightarrow> ClineTask \<Rightarrow> bool" where
  "same_task t t' \<longleftrightarrow>
     task_id t' = task_id t \<and> title t' = title t \<and> status t' = status t \<and>
     createdAt t' = createdAt t \<and>
     take (length (messages t)) (messages t') = messages t"

text \<open>The character U+2026 (horizontal ellipsis), in UTF-8.\<close>

definition horizontal_ellipsis :: string where
  "horizontal_ellipsis = [CHR 0xE2, CHR 0x80, CHR 0xA6]"

text \<open>Concrete inputs: a configuration, a clock that stands still (every read falls in
  the same millisecond), a clock that advances by one millisecond at every read, and a
  host object with no shell (so no notebook, no cell and no selection).\<close>

definition config0 :: ClineConfig where
  "config0 = \<lparr>apiProvider = openai, apiKey = None, apiUrl = None, model = ''gpt-4'',
              maxTokens = None, temperature = None\<rparr>"

definition clock_still :: clock where
  "clock_still n = 1000"

definition clock_running :: clock where
  "clock_running n = 1000 + int n"

definition api_no_shell :: jupyterLabAPI where
  "api_no_shell = \<lparr>shell = None\<rparr>"

text \<open>A host object whose current widget has no content (so no active cell).\<close>

definition api_empty_widget :: jupyterLabAPI where
  "api_empty_widget =
     \<lparr>shell = Some \<lparr>currentWidget = Some \<lparr>widget_content = None, context_path = None\<rparr>\<rparr>\<rparr>"

text \<open>A clock that is in one millisecond for the first eight reads and in the next
  millisecond afterwards.\<close>

definition clock_next_ms :: clock where
  "clock_next_ms n = (if n < 8 then 1000 else 1001)"

text \<open>A notebook with two code cells around a markdown cell; the first code cell
  declares the language "python", the second one the language "r".\<close>

definition api_two_languages :: jupyterLabAPI where
  "api_two_languages =
     \<lparr>shell = Some \<lparr>currentWidget = Some
        \<lparr>widget_content = Some
           \<lparr>doc_model = Some
              \<lparr>model_type = Some ''notebook'',
               cells = [\<lparr>cell_type = ''code'', cell_text = ''x = 1'', cell_language = Some ''python''\<rparr>,
                        \<lparr>cell_type = ''markdown'', cell_text = ''notes'', cell_language = None\<rparr>,
                        \<lparr>cell_type = ''code'', cell_text = ''y <- 2'', cell_language = Some ''r''\<rparr>],
               model_value = None\<rparr>,
            activeCell = None\<rparr>,
         context_path = Some ''analysis.ipynb''\<rparr>\<rparr>\<rparr>"

text \<open>The text that \<open>getActiveDocument\<close> writes for the code cell at index \<open>j\<close> (the
  marker line "# Cell j+1", the text of the cell, an empty line), and the non-empty
  languages other than "python" that the code cells of a notebook declare, in
  display order.\<close>

definition cell_marker_and_text :: "nat \<times> cell_model \<Rightarrow> string" where
  "cell_marker_and_text jc =
     ''# Cell '' @ show_nat (fst jc + 1) @ [CHR 0x0A] @ cell_text (snd jc) @ [CHR 0x0A, CHR 0x0A]"

definition declared_languages :: "cell_model list \<Rightarrow> string list" where
  "declared_languages cs =
     filter (\<lambda>l. l \<noteq> [] \<and> l \<noteq> ''python'')
       (List.map_filter cell_language (filter (\<lambda>cell. cell_type cell = ''code'') cs))"

text \<open>Invariants of the store. The times: no task was updated before it was created
  or after the latest clock read. The identifiers: a task id starts with "task-" and
  a message id with "msg-".\<close>

definition times_inv :: "clock \<Rightarrow> state \<Rightarrow> bool" where
  "times_inv clk s \<longleftrightarrow>
     (\<forall>r < length (heap s).
        createdAt (heap s ! r) \<le> updatedAt (heap s ! r) \<and>
        updatedAt (heap s ! r) \<le> clk (ticks s))"

definition ids_inv :: "state \<Rightarrow> bool" where
  "ids_inv s \<longleftrightarrow>
     (\<forall>r < length (heap s).
        take 5 (task_id (heap s ! r)) = ''task-'' \<and>
        (\<forall>m \<in> set (messages (heap s ! r)). take 4 (msg_id m) = ''msg-''))"

section \<open>What one call does to the state\<close>

lemma startNewTask_eq:
  "startNewTask clk initialMessage s =
     (length (heap s),
      s\<lparr>ticks := (if initialMessage = None \<or> initialMessage = Some [] then ticks s + 3
                   else ticks s + 5),
        heap := heap s @ [initial_task clk initialMessage s],
        currentTask := Some (length (heap s)),
        tasks := tasks s @ [length (heap s)]\<rparr>)"
  by (cases initialMessage)
     (simp_all add: startNewTask_def now_def push_message_def initial_task_def Let_def
        eval_nat_numeral)

lemma sendMessage_no_task:
  "currentTask s = None \<Longrightarrow> sendMessage clk text images s = (Inl NoActiveTaskError, s)"
  by (simp add: sendMessage_def NoActiveTaskError_def)

lemma sendMessage_eq:
  assumes "currentTask s = Some r" and "r < length (heap s)"
  shows "sendMessage clk text images s =
     (Inr (assistantMessage_of clk text s),
      s\<lparr>ticks := ticks s + 5,
        heap := (heap s)[r := (heap s ! r)
              \<lparr>updatedAt := clk (ticks s + 2),
               messages := messages (heap s ! r) @
                 [userMessage_of clk text images s, assistantMessage_of clk text s]\<rparr>]\<rparr>)"
  using assms
  by (simp add: sendMessage_def now_def push_message_def set_updatedAt_def Let_def
      userMessage_of_def assistantMessage_of_def eval_nat_numeral)

lemma sendMessage_fields:
  "currentTask (snd (sendMessage clk text images s)) = currentTask s"
  "tasks (snd (sendMessage clk text images s)) = tasks s"
  "length (heap (snd (sendMessage clk text images s))) = length (heap s)"
  by (simp_all add: sendMessage_def now_def push_message_def set_updatedAt_def Let_def
      split: option.splits)

lemma snd_await_sendMessage:
  "snd (await_sendMessage clk msg s) = snd (sendMessage clk msg None s)"
  by (simp add: await_sendMessage_def split: prod.splits sum.splits)

lemma await_sendMessage_fields:
  "currentTask (snd (await_sendMessage clk msg s)) = currentTask s"
  "tasks (snd (await_sendMessage clk msg s)) = tasks s"
  "length (heap (snd (await_sendMessage clk msg s))) = length (heap s)"
  by (simp_all add: snd_await_sendMessage sendMessage_fields)

lemma await_sendMessage_no_task:
  "currentTask s = None \<Longrightarrow> await_sendMessage clk text s = (Inl NoActiveTaskError, s)"
  by (simp add: await_sendMessage_def sendMessage_no_task)

lemma try_catch_fields:
  "currentTask (snd (try_catch_console_error body label s)) = currentTask (snd (body s))"
  "tasks (snd (try_catch_console_error body label s)) = tasks (snd (body s))"
  "heap (snd (try_catch_console_error body label s)) = heap (snd (body s))"
  by (simp_all add: try_catch_console_error_def split: prod.splits sum.splits)

lemma try_catch_returns: "fst (try_catch_console_error body label s) = Inr ()"
  by (simp add: try_catch_console_error_def split: prod.splits sum.splits)

lemma adapter_fields:
  "currentTask (snd (analyzeCurrentNotebook clk api s)) = currentTask s"
  "tasks (snd (analyzeCurrentNotebook clk api s)) = tasks s"
  "length (heap (snd (analyzeCurrentNotebook clk api s))) = length (heap s)"
  "currentTask (snd (explainSelectedCell clk api s)) = currentTask s"
  "tasks (snd (explainSelectedCell clk api s)) = tasks s"
  "length (heap (snd (explainSelectedCell clk api s))) = length (heap s)"
  "currentTask (snd (optimizeSelectedCode clk api s)) = currentTask s"
  "tasks (snd (optimizeSelectedCode clk api s)) = tasks s"
  "length (heap (snd (optimizeSelectedCode clk api s))) = length (heap s)"
  by (simp_all add: analyzeCurrentNotebook_def explainSelectedCell_def optimizeSelectedCode_def
      try_catch_fields await_sendMessage_fields Let_def split: option.splits)

lemma step_tasks:
  "tasks (step clk c s) = (if is_StartNewTask c then tasks s @ [length (heap s)] else tasks s)"
  by (cases c) (simp_all add: startNewTask_eq sendMessage_fields adapter_fields
      initialize_def updateConfig_def)

lemma step_heap_length:
  "length (heap (step clk c s)) =
     (if is_StartNewTask c then Suc (length (heap s)) else length (heap s))"
  by (cases c) (simp_all add: startNewTask_eq sendMessage_fields adapter_fields
      initialize_def updateConfig_def)

lemma step_currentTask:
  "currentTask (step clk c s) =
     (if is_StartNewTask c then Some (length (heap s)) else currentTask s)"
  by (cases c) (simp_all add: startNewTask_eq sendMessage_fields adapter_fields
      initialize_def updateConfig_def)

lemma run_heap_length:
  "length (heap (run clk cs s)) = length (heap s) + length (filter is_StartNewTask cs)"
  by (induction cs arbitrary: s) (simp_all add: step_heap_length)

lemma run_tasks:
  "\<exists>new. tasks (run clk cs s) = tasks s @ new \<and> length new = length (filter is_StartNewTask cs)"
proof (induction cs arbitrary: s)
  case Nil
  show ?case by simp
next
  case (Cons c cs)
  obtain new where new: "tasks (run clk cs (step clk c s)) = tasks (step clk c s) @ new"
      "length new = length (filter is_StartNewTask cs)"
    using Cons.IH [of "step clk c s"] by blast
  show ?case
  proof (cases "is_StartNewTask c")
    case True
    with new have "tasks (run clk (c # cs) s) = tasks s @ (length (heap s) # new)"
      by (simp add: step_tasks)
    with True new(2) show ?thesis by auto
  next
    case False
    with new show ?thesis by (auto simp add: step_tasks)
  qed
qed

lemma run_no_start:
  "list_all (\<lambda>c. \<not> is_StartNewTask c) cs \<Longrightarrow>
   currentTask (run clk cs s) = currentTask s \<and> tasks (run clk cs s) = tasks s"
  by (induction cs arbitrary: s) (simp_all add: step_tasks step_currentTask)

lemma wf_new_ClineCore: "wf (new_ClineCore cfg)"
  by (simp add: wf_def new_ClineCore_def)

lemma wf_step: "wf s \<Longrightarrow> wf (step clk c s)"
  unfolding wf_def
  by (auto simp add: step_tasks step_heap_length step_currentTask list_all_iff
      split: option.splits)

lemma wf_run: "wf s \<Longrightarrow> wf (run clk cs s)"
  by (induction cs arbitrary: s) (simp_all add: wf_step)

section \<open>Splitting at a separator and joining again\<close>

lemma split_not_Nil: "split sep s \<noteq> []"
  by (induction s) (auto split: list.splits)

lemma length_split: "length (split sep s) = Suc (count_list s sep)"
  by (induction s) (auto split: list.splits simp: split_not_Nil)

lemma join_Cons: "ps \<noteq> [] \<Longrightarrow> join sep (p # ps) = p @ sep @ join sep ps"
  by (cases ps) auto

lemma join_split: "join [sep] (split sep s) = s"
proof (induction s)
  case Nil
  show ?case by simp
next
  case (Cons c cs)
  show ?case
  proof (cases "c = sep")
    case True
    with Cons show ?thesis by (simp add: join_Cons split_not_Nil)
  next
    case False
    obtain p ps where sp: "split sep cs = p # ps"
      using split_not_Nil [of sep cs] by (cases "split sep cs") auto
    from Cons sp have "join [sep] (p # ps) = cs" by simp
    then have "join [sep] ((c # p) # ps) = c # cs" by (cases ps) auto
    with False sp show ?thesis by simp
  qed
qed

lemma split_pieces_no_sep: "p \<in> set (split sep s) \<Longrightarrow> sep \<notin> set p"
proof (induction s arbitrary: p)
  case Nil
  then show ?case by simp
next
  case (Cons c cs)
  show ?case
  proof (cases "c = sep")
    case True
    with Cons show ?thesis by auto
  next
    case False
    obtain q qs where sp: "split sep cs = q # qs"
      using split_not_Nil [of sep cs] by (cases "split sep cs") auto
    with Cons.prems False have "p = c # q \<or> p \<in> set qs" by auto
    then show ?thesis
    proof
      assume "p = c # q"
      moreover have "sep \<notin> set q" using Cons.IH [of q] sp by simp
      ultimately show ?thesis using False by auto
    next
      assume "p \<in> set qs"
      then show ?thesis using Cons.IH [of p] sp by simp
    qed
  qed
qed

lemma split_append_sep: "split sep (p @ sep # rest) = split sep p @ split sep rest"
proof (induction p)
  case Nil
  show ?case by simp
next
  case (Cons c cs)
  show ?case
  proof (cases "c = sep")
    case True
    with Cons show ?thesis by simp
  next
    case False
    obtain q qs where sp: "split sep cs = q # qs"
      using split_not_Nil [of sep cs] by (cases "split sep cs") auto
    with Cons False show ?thesis by simp
  qed
qed

lemma generateTaskTitle_short:
  assumes "count_list m CHR '' '' \<le> 5"
  shows "generateTaskTitle m = m"
  using assms join_split [of "CHR '' ''" m]
  by (simp add: generateTaskTitle_def slice0_def length_split)

lemma generateTaskTitle_long:
  assumes "m = p @ CHR '' '' # rest" and "count_list p CHR '' '' = 5"
  shows "generateTaskTitle m = p @ ''...''"
proof -
  have len: "length (split CHR '' '' p) = 6"
    using assms(2) by (simp add: length_split)
  have "split CHR '' '' m = split CHR '' '' p @ split CHR '' '' rest"
    using assms(1) by (simp add: split_append_sep)
  moreover have "split CHR '' '' rest \<noteq> []" by (rule split_not_Nil)
  ultimately show ?thesis
    using len join_split [of "CHR '' ''" p]
    by (simp add: generateTaskTitle_def slice0_def)
qed

section \<open>Task objects are only ever extended\<close>

lemma same_task_refl: "same_task t t"
  by (simp add: same_task_def)

lemma same_task_trans: "same_task t t' \<Longrightarrow> same_task t' t'' \<Longrightarrow> same_task t t''"
  unfolding same_task_def
  by (metis append_eq_conv_conj append_take_drop_id append.assoc)

lemma sendMessage_same_task:
  "same_task (heap s ! r) (heap (snd (sendMessage clk msg images s)) ! r)"
proof (cases "currentTask s")
  case None
  then show ?thesis by (simp add: sendMessage_no_task same_task_refl)
next
  case (Some r0)
  show ?thesis
  proof (cases "r0 < length (heap s)")
    case True
    show ?thesis
      by (cases "r = r0") (simp_all add: sendMessage_eq [OF Some True] True same_task_def)
  next
    case False
    then have "length (heap s) \<le> r0" by simp
    then show ?thesis
      using Some
      by (simp add: sendMessage_def now_def push_message_def set_updatedAt_def Let_def
          list_update_beyond same_task_refl)
  qed
qed

lemma adapter_same_task:
  "same_task (heap s ! r) (heap (snd (analyzeCurrentNotebook clk api s)) ! r)"
  "same_task (heap s ! r) (heap (snd (explainSelectedCell clk api s)) ! r)"
  "same_task (heap s ! r) (heap (snd (optimizeSelectedCode clk api s)) ! r)"
  by (simp_all add: analyzeCurrentNotebook_def explainSelectedCell_def optimizeSelectedCode_def
      try_catch_fields snd_await_sendMessage sendMessage_same_task same_task_refl Let_def
      split: option.splits)

lemma step_same_task:
  "r < length (heap s) \<Longrightarrow> same_task (heap s ! r) (heap (step clk c s) ! r)"
  by (cases c)
     (simp_all add: startNewTask_eq sendMessage_same_task adapter_same_task same_task_refl
        initialize_def updateConfig_def nth_append)

lemma run_same_task:
  "r < length (heap s) \<Longrightarrow> same_task (heap s ! r) (heap (run clk cs s) ! r)"
proof (induction cs arbitrary: s)
  case Nil
  show ?case by (simp add: same_task_refl)
next
  case (Cons c cs)
  have "r < length (heap (step clk c s))"
    using Cons.prems by (simp add: step_heap_length)
  then have "same_task (heap (step clk c s) ! r) (heap (run clk cs (step clk c s)) ! r)"
    by (rule Cons.IH)
  with step_same_task [OF Cons.prems, of clk c] show ?case
    by (auto intro: same_task_trans)
qed

section \<open>Invariants of the store\<close>

lemma ticks_sendMessage:
  "ticks (snd (sendMessage clk msg images s)) =
     (if currentTask s = None then ticks s else ticks s + 5)"
  by (simp add: sendMessage_def now_def push_message_def set_updatedAt_def Let_def
      split: option.splits)

lemma heap_sendMessage:
  "heap (snd (sendMessage clk msg images s)) =
     (case currentTask s of
        None \<Rightarrow> heap s
      | Some r \<Rightarrow>
          if r < length (heap s) then
            (heap s)[r := (heap s ! r)
              \<lparr>updatedAt := clk (ticks s + 2),
               messages := messages (heap s ! r) @
                 [userMessage_of clk msg images s, assistantMessage_of clk msg s]\<rparr>]
          else heap s)"
proof (cases "currentTask s")
  case None
  then show ?thesis by (simp add: sendMessage_no_task)
next
  case (Some r)
  show ?thesis
  proof (cases "r < length (heap s)")
    case True
    then show ?thesis by (simp add: sendMessage_eq [OF Some True] Some)
  next
    case False
    then have "length (heap s) \<le> r" by simp
    then show ?thesis
      using Some
      by (simp add: sendMessage_def now_def push_message_def set_updatedAt_def Let_def
          list_update_beyond)
  qed
qed

lemma sendMessage_times_inv:
  assumes "mono clk" and "times_inv clk s"
  shows "times_inv clk (snd (sendMessage clk msg images s))"
proof -
  have le: "clk (ticks s) \<le> clk (ticks s + 2)" "clk (ticks s + 2) \<le> clk (ticks s + 5)"
    "clk (ticks s) \<le> clk (ticks s + 5)"
    using assms(1) by (simp_all add: monoD)
  show ?thesis
    using assms(2) le
    by (auto simp add: times_inv_def heap_sendMessage ticks_sendMessage nth_list_update
        split: option.splits)
qed

lemma sendMessage_ids_inv:
  assumes "ids_inv s"
  shows "ids_inv (snd (sendMessage clk msg images s))"
  using assms
  by (auto simp add: ids_inv_def heap_sendMessage nth_list_update userMessage_of_def
      assistantMessage_of_def split: option.splits)

lemma startNewTask_times_inv:
  assumes "mono clk" and "times_inv clk s"
  shows "times_inv clk (snd (startNewTask clk initialMessage s))"
proof -
  have le: "clk (ticks s + 1) \<le> clk (ticks s + 2)" "clk (ticks s + 2) \<le> clk (ticks s + 3)"
    "clk (ticks s + 2) \<le> clk (ticks s + 5)" "clk (ticks s) \<le> clk (ticks s + 3)"
    "clk (ticks s) \<le> clk (ticks s + 5)"
    using assms(1) by (simp_all add: monoD)
  show ?thesis
    using assms(2) le
    by (auto simp add: times_inv_def startNewTask_eq initial_task_def nth_append less_Suc_eq)
qed

lemma startNewTask_ids_inv:
  assumes "ids_inv s"
  shows "ids_inv (snd (startNewTask clk initialMessage s))"
  using assms
  by (auto simp add: ids_inv_def startNewTask_eq initial_task_def nth_append less_Suc_eq
      split: option.splits if_splits)

lemma try_catch_heap_ticks:
  "heap (snd (try_catch_console_error body label s)) = heap (snd (body s))"
  "ticks (snd (try_catch_console_error body label s)) = ticks (snd (body s))"
  by (simp_all add: try_catch_console_error_def split: prod.splits sum.splits)

lemma times_inv_cong:
  "heap s' = heap s \<Longrightarrow> ticks s' = ticks s \<Longrightarrow> times_inv clk s' = times_inv clk s"
  by (simp add: times_inv_def)

lemma ids_inv_cong: "heap s' = heap s \<Longrightarrow> ids_inv s' = ids_inv s"
  by (simp add: ids_inv_def)

lemma adapter_times_inv:
  assumes "mono clk" and "times_inv clk s"
  shows "times_inv clk (snd (analyzeCurrentNotebook clk api s))"
    and "times_inv clk (snd (explainSelectedCell clk api s))"
    and "times_inv clk (snd (optimizeSelectedCode clk api s))"
  using assms sendMessage_times_inv [OF assms, of _ None]
  by (simp_all add: analyzeCurrentNotebook_def explainSelectedCell_def optimizeSelectedCode_def
      times_inv_cong [OF try_catch_heap_ticks] snd_await_sendMessage Let_def
      split: option.splits)

lemma adapter_ids_inv:
  assumes "ids_inv s"
  shows "ids_inv (snd (analyzeCurrentNotebook clk api s))"
    and "ids_inv (snd (explainSelectedCell clk api s))"
    and "ids_inv (snd (optimizeSelectedCode clk api s))"
  using assms sendMessage_ids_inv [OF assms, of clk _ None]
  by (simp_all add: analyzeCurrentNotebook_def explainSelectedCell_def optimizeSelectedCode_def
      ids_inv_cong [OF try_catch_heap_ticks(1)] snd_await_sendMessage Let_def
      split: option.splits)

lemma step_times_inv: "mono clk \<Longrightarrow> times_inv clk s \<Longrightarrow> times_inv clk (step clk c s)"
  by (cases c)
     (simp_all add: startNewTask_times_inv sendMessage_times_inv adapter_times_inv,
      simp_all add: times_inv_def initialize_def updateConfig_def)

lemma step_ids_inv: "ids_inv s \<Longrightarrow> ids_inv (step clk c s)"
  by (cases c)
     (simp_all add: startNewTask_ids_inv sendMessage_ids_inv adapter_ids_inv,
      simp_all add: ids_inv_def initialize_def updateConfig_def)

lemma run_times_inv: "mono clk \<Longrightarrow> times_inv clk s \<Longrightarrow> times_inv clk (run clk cs s)"
  by (induction cs arbitrary: s) (simp_all add: step_times_inv)

lemma run_ids_inv: "ids_inv s \<Longrightarrow> ids_inv (run clk cs s)"
  by (induction cs arbitrary: s) (simp_all add: step_ids_inv)

lemma createdAt_le_updatedAt:
  assumes "mono clk" and "getCurrentTask (run clk cs (new_ClineCore cfg)) = Some r"
  shows "createdAt (heap (run clk cs (new_ClineCore cfg)) ! r) \<le>
         updatedAt (heap (run clk cs (new_ClineCore cfg)) ! r)"
proof -
  have "times_inv clk (new_ClineCore cfg)"
    by (simp add: times_inv_def new_ClineCore_def)
  then have inv: "times_inv clk (run clk cs (new_ClineCore cfg))"
    using assms(1) by (simp add: run_times_inv)
  have "wf (run clk cs (new_ClineCore cfg))"
    by (simp add: wf_run wf_new_ClineCore)
  then have "r < length (heap (run clk cs (new_ClineCore cfg)))"
    using assms(2) by (simp add: wf_def getCurrentTask_def)
  with inv show ?thesis by (simp add: times_inv_def)
qed

lemma task_id_not_msg_id:
  assumes "r < length (heap (run clk cs (new_ClineCore cfg)))"
    and "r' < length (heap (run clk cs (new_ClineCore cfg)))"
    and "m \<in> set (messages (heap (run clk cs (new_ClineCore cfg)) ! r'))"
  shows "task_id (heap (run clk cs (new_ClineCore cfg)) ! r) \<noteq> msg_id m"
proof -
  have "ids_inv (new_ClineCore cfg)"
    by (simp add: ids_inv_def new_ClineCore_def)
  then have inv: "ids_inv (run clk cs (new_ClineCore cfg))"
    by (simp add: run_ids_inv)
  have a: "take 5 (task_id (heap (run clk cs (new_ClineCore cfg)) ! r)) = ''task-''"
    using inv assms(1) by (simp add: ids_inv_def)
  have b: "take 4 (msg_id m) = ''msg-''"
    using inv assms(2,3) by (auto simp add: ids_inv_def)
  show ?thesis
  proof
    assume "task_id (heap (run clk cs (new_ClineCore cfg)) ! r) = msg_id m"
    then have "take 4 (take 5 (task_id (heap (run clk cs (new_ClineCore cfg)) ! r))) = take 4 (msg_id m)"
      by simp
    with a b show False by simp
  qed
qed

section \<open>The active document of a notebook\<close>

lemma notebook_cells_loop_content:
  "fst (notebook_cells_loop i cs (cont, lang)) =
     cont @ concat (map cell_marker_and_text
                      (filter (\<lambda>jc. cell_type (snd jc) = ''code'') (zip [i..<i + length cs] cs)))"
proof (induction cs arbitrary: i cont lang)
  case Nil
  show ?case by simp
next
  case (Cons cell rest)
  have z: "zip [i..<i + length (cell # rest)] (cell # rest) =
      (i, cell) # zip [Suc i..<Suc i + length rest] rest"
    using upt_conv_Cons [of i "i + length (cell # rest)"] by (simp del: upt_Suc)
  show ?case
    unfolding z
    by (simp add: Cons.IH Let_def cell_marker_and_text_def)
qed

lemma notebook_cells_loop_language:
  "snd (notebook_cells_loop i cs (cont, lang)) =
     (if lang \<noteq> ''python'' then lang
      else (case declared_languages cs of [] \<Rightarrow> ''python'' | l # ls \<Rightarrow> l))"
proof (induction cs arbitrary: i cont lang)
  case Nil
  show ?case by (simp add: declared_languages_def)
next
  case (Cons cell rest)
  show ?case
    by (auto simp add: Cons.IH Let_def declared_languages_def
        split: option.splits list.splits)
qed

lemma getActiveDocument_no_widget:
  "shell api = None \<or> (\<exists>sh. shell api = Some sh \<and> currentWidget sh = None) \<Longrightarrow>
   getActiveDocument api = None"
  by (auto simp add: getActiveDocument_def)

lemma getActiveDocument_notebook:
  assumes "shell api = Some sh" and "currentWidget sh = Some w"
    and "widget_content w = Some c" and "doc_model c = Some m"
    and "model_type m = Some ''notebook''"
  shows "getActiveDocument api =
     Some \<lparr>path = or_default (context_path w) ''untitled.ipynb'',
           doc_content = concat (map cell_marker_and_text
              (filter (\<lambda>jc. cell_type (snd jc) = ''code'') (zip [0..<length (cells m)] (cells m)))),
           language = (case declared_languages (cells m) of [] \<Rightarrow> ''python'' | l # ls \<Rightarrow> l)\<rparr>"
  using assms notebook_cells_loop_content [of 0 "cells m" "[]" "''python''"]
    notebook_cells_loop_language [of 0 "cells m" "[]" "''python''"]
  by (simp add: getActiveDocument_def case_prod_beta)

section \<open>Claims\<close>

text \<open>
  Claim C2. In every state of the controller in which no task is current,
  \<open>sendMessage\<close> fails with \<open>NoActiveTaskError\<close> and the state after the call is the
  state before it: the task list, the current-task pointer, every task object, the
  clock reads and the console are untouched. In particular this holds after any run
  that contains no call of \<open>startNewTask\<close> on a new controller, and the task list then
  still has length 0.
\<close>

theorem sendMessage_without_task_C2:
  "(currentTask s = None \<longrightarrow> sendMessage clk msg images s = (Inl NoActiveTaskError, s)) \<and>
   (list_all (\<lambda>c. \<not> is_StartNewTask c) cs \<longrightarrow>
      sendMessage clk msg images (run clk cs (new_ClineCore cfg)) =
        (Inl NoActiveTaskError, run clk cs (new_ClineCore cfg)) \<and>
      length (getTasks (run clk cs (new_ClineCore cfg))) = 0)"
proof (intro conjI impI)
  assume "currentTask s = None"
  then show "sendMessage clk msg images s = (Inl NoActiveTaskError, s)"
    by (rule sendMessage_no_task)
next
  assume cs: "list_all (\<lambda>c. \<not> is_StartNewTask c) cs"
  have "currentTask (run clk cs (new_ClineCore cfg)) = None"
    using run_no_start [OF cs, of clk "new_ClineCore cfg"] by (simp add: new_ClineCore_def)
  then show "sendMessage clk msg images (run clk cs (new_ClineCore cfg)) =
        (Inl NoActiveTaskError, run clk cs (new_ClineCore cfg))"
    by (rule sendMessage_no_task)
next
  assume cs: "list_all (\<lambda>c. \<not> is_StartNewTask c) cs"
  show "length (getTasks (run clk cs (new_ClineCore cfg))) = 0"
    using run_no_start [OF cs, of clk "new_ClineCore cfg"]
    by (simp add: new_ClineCore_def getTasks_def)
qed

theorem sendMessage_without_task_C2_witness:
  "currentTask (new_ClineCore config0) = None \<and>
   list_all (\<lambda>c. \<not> is_StartNewTask c) [Initialize, SendMessage ''hello'' None, GetTasks] \<and>
   sendMessage clock_running ''first'' (Some [''a.png'']) (new_ClineCore config0) =
     (Inl (Error ''No active task. Start a new task first.''), new_ClineCore config0) \<and>
   fst (sendMessage clock_running ''first'' None
         (run clock_running [Initialize, SendMessage ''hello'' None, GetTasks] (new_ClineCore config0))) =
     Inl (Error ''No active task. Start a new task first.'') \<and>
   getTasks (run clock_running [Initialize, SendMessage ''hello'' None, GetTasks] (new_ClineCore config0)) = []"
  using sendMessage_without_task_C2 [of "new_ClineCore config0" clock_running "''first''" "Some [''a.png'']"
      "[Initialize, SendMessage ''hello'' None, GetTasks]" config0]
    sendMessage_without_task_C2 [of "new_ClineCore config0" clock_running "''first''" None
      "[Initialize, SendMessage ''hello'' None, GetTasks]" config0]
  by (simp add: new_ClineCore_def NoActiveTaskError_def)

text \<open>
  Claim C1. When a current task exists (\<open>currentTask\<close> is a reference \<open>r\<close> to a task
  object of the store), a call of \<open>sendMessage(content, images?)\<close> appends to the current task exactly one user message followed by exactly one
  assistant message, and returns that assistant message. The user message carries the
  given content, and its metadata holds the images if and only if images were
  supplied (otherwise reading its metadata gives nothing). No other task object, the
  task list and the current-task pointer are unchanged. In particular, after
  \<open>startNewTask("x")\<close> and then \<open>sendMessage("y")\<close>, in any state, the current task has
  three messages in this order: the initial user message, the new user message, the
  assistant reply.
\<close>

theorem sendMessage_appends_C1:
  "(currentTask s = Some r \<and> r < length (heap s) \<longrightarrow>
      (\<exists>u a s'.
         sendMessage clk msg images s = (Inr a, s') \<and>
         messages (heap s' ! r) = messages (heap s ! r) @ [u, a] \<and>
         msg_type u = user \<and> content u = msg \<and>
         metadata u = map_option Metadata images \<and>
         (metadata u = None \<longleftrightarrow> images = None) \<and>
         msg_type a = assistant \<and>
         length (heap s') = length (heap s) \<and>
         (\<forall>r'. r' \<noteq> r \<longrightarrow> heap s' ! r' = heap s ! r') \<and>
         getTasks s' = getTasks s \<and> getCurrentTask s' = getCurrentTask s)) \<and>
   (case startNewTask clk (Some ''x'') s of
      (r0, s1) \<Rightarrow>
        (case sendMessage clk ''y'' None s1 of
           (reply, s2) \<Rightarrow>
             (\<exists>m0 m1 m2.
                messages (heap s2 ! r0) = [m0, m1, m2] \<and>
                getCurrentTask s2 = Some r0 \<and>
                msg_type m0 = user \<and> content m0 = ''x'' \<and>
                msg_type m1 = user \<and> content m1 = ''y'' \<and> metadata m1 = None \<and>
                msg_type m2 = assistant \<and> reply = Inr m2)))"
proof (intro conjI impI)
  assume h: "currentTask s = Some r \<and> r < length (heap s)"
  show "\<exists>u a s'.
         sendMessage clk msg images s = (Inr a, s') \<and>
         messages (heap s' ! r) = messages (heap s ! r) @ [u, a] \<and>
         msg_type u = user \<and> content u = msg \<and>
         metadata u = map_option Metadata images \<and>
         (metadata u = None \<longleftrightarrow> images = None) \<and>
         msg_type a = assistant \<and>
         length (heap s') = length (heap s) \<and>
         (\<forall>r'. r' \<noteq> r \<longrightarrow> heap s' ! r' = heap s ! r') \<and>
         getTasks s' = getTasks s \<and> getCurrentTask s' = getCurrentTask s"
    using h
    by (simp add: sendMessage_eq [of s r] userMessage_of_def assistantMessage_of_def
        getTasks_def getCurrentTask_def split: option.splits)
next
  obtain r0 s1 where st: "startNewTask clk (Some ''x'') s = (r0, s1)"
    by (cases "startNewTask clk (Some ''x'') s") auto
  have cur: "currentTask s1 = Some r0" and r0: "r0 < length (heap s1)"
    and ms: "messages (heap s1 ! r0) =
       [\<lparr>msg_id = ''msg-'' @ show_int (clk (ticks s + 3)), msg_type = user,
          content = ''x'', timestamp = clk (ticks s + 4), metadata = None\<rparr>]"
    using st by (auto simp add: startNewTask_eq initial_task_def)
  show "case startNewTask clk (Some ''x'') s of
      (r0, s1) \<Rightarrow>
        (case sendMessage clk ''y'' None s1 of
           (reply, s2) \<Rightarrow>
             (\<exists>m0 m1 m2.
                messages (heap s2 ! r0) = [m0, m1, m2] \<and>
                getCurrentTask s2 = Some r0 \<and>
                msg_type m0 = user \<and> content m0 = ''x'' \<and>
                msg_type m1 = user \<and> content m1 = ''y'' \<and> metadata m1 = None \<and>
                msg_type m2 = assistant \<and> reply = Inr m2))"
    using r0 ms
    by (simp add: st sendMessage_eq [OF cur r0] userMessage_of_def assistantMessage_of_def
        getCurrentTask_def cur)
qed


theorem sendMessage_appends_C1_witness:
  "currentTask (snd (startNewTask clock_running (Some ''x'') (new_ClineCore config0))) = Some 0 \<and>
   0 < length (heap (snd (startNewTask clock_running (Some ''x'') (new_ClineCore config0)))) \<and>
   (case sendMessage clock_running ''y'' (Some [''plot.png''])
           (snd (startNewTask clock_running (Some ''x'') (new_ClineCore config0))) of
      (reply, s2) \<Rightarrow>
        map msg_type (messages (heap s2 ! 0)) = [user, user, assistant] \<and>
        map content (messages (heap s2 ! 0)) =
          [''x'', ''y'', ''I received your message: '' @ [CHR 0x22] @ ''y'' @ [CHR 0x22] @
             ''. This is a placeholder response. The full implementation would process this through the Cline core logic.''] \<and>
        map metadata (messages (heap s2 ! 0)) = [None, Some (Metadata [''plot.png'']), None] \<and>
        reply = Inr (messages (heap s2 ! 0) ! 2))"
  using sendMessage_appends_C1 [where s = "snd (startNewTask clock_running (Some ''x'') (new_ClineCore config0))"
      and r = "0" and clk = clock_running and msg = "''y''" and images = "Some [''plot.png'']"]
  by (simp add: startNewTask_eq initial_task_def new_ClineCore_def sendMessage_def now_def
      push_message_def set_updatedAt_def Let_def)

text \<open>
  Claim C4. For every non-empty string \<open>m\<close>, \<open>startNewTask(m)\<close> returns a task with
  exactly one message, whose content is \<open>m\<close> and whose role is user; \<open>startNewTask()\<close>
  returns a task with no message and the title "New Task". In both cases the task
  is a new object with status active, it becomes the current task, and it is appended
  to the task list of the controller, the objects already in the store being kept.
\<close>

theorem startNewTask_result_C4:
  "(m \<noteq> [] \<longrightarrow>
      (case startNewTask clk (Some m) s of
         (r, s') \<Rightarrow>
           length (messages (heap s' ! r)) = 1 \<and>
           content (messages (heap s' ! r) ! 0) = m \<and>
           msg_type (messages (heap s' ! r) ! 0) = user \<and>
           status (heap s' ! r) = active \<and>
           getCurrentTask s' = Some r \<and>
           getTasks s' = getTasks s @ [r] \<and>
           r = length (heap s) \<and> length (heap s') = length (heap s) + 1 \<and>
           take (length (heap s)) (heap s') = heap s)) \<and>
   (case startNewTask clk None s of
      (r, s') \<Rightarrow>
        length (messages (heap s' ! r)) = 0 \<and>
        title (heap s' ! r) = ''New Task'' \<and>
        status (heap s' ! r) = active \<and>
        getCurrentTask s' = Some r \<and>
        getTasks s' = getTasks s @ [r] \<and>
        r = length (heap s) \<and> length (heap s') = length (heap s) + 1 \<and>
        take (length (heap s)) (heap s') = heap s)"
  by (simp add: startNewTask_eq initial_task_def getCurrentTask_def getTasks_def)

theorem startNewTask_result_C4_witness:
  "''Test task'' \<noteq> [] \<and>
   (case startNewTask clock_running (Some ''Test task'') (new_ClineCore config0) of
      (r, s') \<Rightarrow>
        r = 0 \<and>
        map content (messages (heap s' ! r)) = [''Test task''] \<and>
        map msg_type (messages (heap s' ! r)) = [user] \<and>
        status (heap s' ! r) = active \<and>
        getCurrentTask s' = Some 0 \<and> getTasks s' = [0])"
  using startNewTask_result_C4 [where m = "''Test task''" and clk = clock_running
      and s = "new_ClineCore config0"]
  by (simp add: startNewTask_eq initial_task_def getCurrentTask_def getTasks_def new_ClineCore_def)

text \<open>
  Claim C10. \<open>startNewTask("")\<close> behaves exactly like \<open>startNewTask()\<close>: same
  returned reference and same state, so the task has no message and the title
  "New Task".
\<close>

theorem startNewTask_empty_string_C10:
  "startNewTask clk (Some []) s = startNewTask clk None s \<and>
   (case startNewTask clk (Some []) s of
      (r, s') \<Rightarrow> messages (heap s' ! r) = [] \<and> title (heap s' ! r) = ''New Task'')"
  by (simp add: startNewTask_eq initial_task_def)

text \<open>
  Claim C6. The task list of the controller is append-only. Each call of
  \<open>startNewTask\<close> makes the sequence returned by \<open>getTasks\<close> longer by exactly one,
  the new task at the end. After any run of operations the earlier sequence is still
  the beginning of the sequence, in the same order, and its length has grown by the
  number of \<open>startNewTask\<close> calls of the run; every task object that existed before
  the run still exists, with the same identity and with its earlier messages in
  place. After a second \<open>startNewTask\<close> (whatever ran in between), the first task is
  still in \<open>getTasks()\<close> while \<open>getCurrentTask()\<close> is the second task, a different
  object.
\<close>

theorem task_list_append_only_C6:
  "getTasks (snd (startNewTask clk m s)) = getTasks s @ [fst (startNewTask clk m s)] \<and>
   take (length (getTasks s)) (getTasks (run clk cs s)) = getTasks s \<and>
   length (getTasks (run clk cs s)) = length (getTasks s) + length (filter is_StartNewTask cs) \<and>
   (\<forall>r < length (heap s). r < length (heap (run clk cs s)) \<and>
        same_task (heap s ! r) (heap (run clk cs s) ! r)) \<and>
   (case startNewTask clk m1 s of
      (r1, s1) \<Rightarrow>
        (case startNewTask clk m2 (run clk cs s1) of
           (r2, s2) \<Rightarrow>
             r1 \<in> set (getTasks s2) \<and> getCurrentTask s2 = Some r2 \<and> r2 \<noteq> r1 \<and>
             r1 < length (heap s2) \<and> same_task (heap s1 ! r1) (heap s2 ! r1)))"
proof (intro conjI allI impI)
  show "getTasks (snd (startNewTask clk m s)) = getTasks s @ [fst (startNewTask clk m s)]"
    by (simp add: startNewTask_eq getTasks_def)
next
  obtain new where "tasks (run clk cs s) = tasks s @ new"
    using run_tasks [of clk cs s] by blast
  then show "take (length (getTasks s)) (getTasks (run clk cs s)) = getTasks s"
    by (simp add: getTasks_def)
next
  obtain new where "tasks (run clk cs s) = tasks s @ new"
      "length new = length (filter is_StartNewTask cs)"
    using run_tasks [of clk cs s] by blast
  then show "length (getTasks (run clk cs s)) =
      length (getTasks s) + length (filter is_StartNewTask cs)"
    by (simp add: getTasks_def)
next
  fix r assume "r < length (heap s)"
  then show "r < length (heap (run clk cs s))"
    by (simp add: run_heap_length)
next
  fix r assume "r < length (heap s)"
  then show "same_task (heap s ! r) (heap (run clk cs s) ! r)"
    by (rule run_same_task)
next
  obtain r1 s1 where st1: "startNewTask clk m1 s = (r1, s1)"
    by (cases "startNewTask clk m1 s") auto
  obtain r2 s2 where st2: "startNewTask clk m2 (run clk cs s1) = (r2, s2)"
    by (cases "startNewTask clk m2 (run clk cs s1)") auto
  have r1: "r1 = length (heap s)" and h1: "length (heap s1) = Suc (length (heap s))"
    and t1: "tasks s1 = tasks s @ [r1]"
    using st1 by (auto simp add: startNewTask_eq)
  obtain new where new: "tasks (run clk cs s1) = tasks s1 @ new"
    using run_tasks [of clk cs s1] by blast
  have hl: "length (heap s1) \<le> length (heap (run clk cs s1))"
    by (simp add: run_heap_length)
  have r2: "r2 = length (heap (run clk cs s1))" and cur: "currentTask s2 = Some r2"
    and t2: "tasks s2 = tasks (run clk cs s1) @ [r2]"
    and h2: "heap s2 = heap (run clk cs s1) @ [initial_task clk m2 (run clk cs s1)]"
    using st2 by (auto simp add: startNewTask_eq)
  have lt: "r1 < length (heap (run clk cs s1))"
    using r1 h1 hl by simp
  have "same_task (heap s1 ! r1) (heap (run clk cs s1) ! r1)"
    by (rule run_same_task) (simp add: r1 h1)
  then have "same_task (heap s1 ! r1) (heap s2 ! r1)"
    using lt by (simp add: h2 nth_append)
  then show "case startNewTask clk m1 s of
      (r1, s1) \<Rightarrow>
        (case startNewTask clk m2 (run clk cs s1) of
           (r2, s2) \<Rightarrow>
             r1 \<in> set (getTasks s2) \<and> getCurrentTask s2 = Some r2 \<and> r2 \<noteq> r1 \<and>
             r1 < length (heap s2) \<and> same_task (heap s1 ! r1) (heap s2 ! r1))"
    using lt by (simp add: st1 st2 getTasks_def getCurrentTask_def cur t2 new t1 r2 h2)
qed


theorem task_list_append_only_C6_witness:
  "0 < length (heap (snd (startNewTask clock_running (Some ''first'') (new_ClineCore config0)))) \<and>
   getTasks (snd (startNewTask clock_running (Some ''first'') (new_ClineCore config0))) = [0] \<and>
   getTasks (run clock_running [SendMessage ''hello'' None, StartNewTask None, GetTasks]
               (snd (startNewTask clock_running (Some ''first'') (new_ClineCore config0)))) = [0, 1] \<and>
   getCurrentTask (run clock_running [SendMessage ''hello'' None, StartNewTask None, GetTasks]
               (snd (startNewTask clock_running (Some ''first'') (new_ClineCore config0)))) = Some 1 \<and>
   same_task
     (heap (snd (startNewTask clock_running (Some ''first'') (new_ClineCore config0))) ! 0)
     (heap (run clock_running [SendMessage ''hello'' None, StartNewTask None, GetTasks]
               (snd (startNewTask clock_running (Some ''first'') (new_ClineCore config0)))) ! 0)"
  using task_list_append_only_C6 [where clk = clock_running
      and s = "snd (startNewTask clock_running (Some ''first'') (new_ClineCore config0))"
      and cs = "[SendMessage ''hello'' None, StartNewTask None, GetTasks]"]
  by (simp add: startNewTask_eq initial_task_def new_ClineCore_def sendMessage_def now_def
      push_message_def set_updatedAt_def Let_def getTasks_def getCurrentTask_def)

text \<open>
  The title rule as the specification words it fails on the code. For the message
  "a b c d e f g" the title ends in three full stops, not in the single character
  U+2026; a message with two adjacent spaces yields an empty piece, so the title is not
  made of the first six words; and for the empty message the title is "New Task".
\<close>

theorem title_rule_C3_counterexample:
  "title (heap (snd (startNewTask clock_running (Some ''a b c d e f g'') (new_ClineCore config0))) !
          fst (startNewTask clock_running (Some ''a b c d e f g'') (new_ClineCore config0)))
     \<noteq> ''a b c d e f'' @ horizontal_ellipsis \<and>
   title (heap (snd (startNewTask clock_running (Some ''a b c d e f g'') (new_ClineCore config0))) !
          fst (startNewTask clock_running (Some ''a b c d e f g'') (new_ClineCore config0)))
     = ''a b c d e f...'' \<and>
   title (heap (snd (startNewTask clock_running (Some ''a  b c d e f g'') (new_ClineCore config0))) !
          fst (startNewTask clock_running (Some ''a  b c d e f g'') (new_ClineCore config0)))
     = ''a  b c d e...'' \<and>
   title (heap (snd (startNewTask clock_running (Some '''') (new_ClineCore config0))) !
          fst (startNewTask clock_running (Some '''') (new_ClineCore config0)))
     = ''New Task''"
  by (simp add: startNewTask_eq initial_task_def new_ClineCore_def generateTaskTitle_def
      slice0_def horizontal_ellipsis_def)

text \<open>
  Claim C3, as amended. For every non-empty message \<open>m\<close>, the title of
  \<open>startNewTask(m)\<close> is made of the first 6 pieces of \<open>m\<close>, where \<open>m\<close> is cut at every
  single space character, joined by single spaces, followed by the three characters
  "..." if and only if \<open>m\<close> has more than 6 such pieces. The pieces contain no space,
  there is one more piece than there are spaces in \<open>m\<close>, and joining all of them by
  single spaces gives \<open>m\<close> back. So the title is \<open>m\<close> itself when \<open>m\<close> has at most 5
  spaces, and otherwise the part of \<open>m\<close> before its sixth space followed by "...".
\<close>

theorem startNewTask_title_C3:
  "m \<noteq> [] \<longrightarrow>
     (case startNewTask clk (Some m) s of
        (r, s') \<Rightarrow>
          title (heap s' ! r) =
            join '' '' (take 6 (split CHR '' '' m)) @
            (if 6 < length (split CHR '' '' m) then ''...'' else []) \<and>
          (count_list m CHR '' '' \<le> 5 \<longrightarrow> title (heap s' ! r) = m) \<and>
          (\<forall>p rest. m = p @ CHR '' '' # rest \<and> count_list p CHR '' '' = 5 \<longrightarrow>
                      title (heap s' ! r) = p @ ''...'')) \<and>
     length (split CHR '' '' m) = count_list m CHR '' '' + 1 \<and>
     join '' '' (split CHR '' '' m) = m \<and>
     (\<forall>p \<in> set (split CHR '' '' m). CHR '' '' \<notin> set p)"
proof (intro impI conjI)
  assume m: "m \<noteq> []"
  have t: "title (heap (snd (startNewTask clk (Some m) s)) ! fst (startNewTask clk (Some m) s)) =
      generateTaskTitle m"
    using m by (simp add: startNewTask_eq initial_task_def)
  have a: "generateTaskTitle m =
      join '' '' (take 6 (split CHR '' '' m)) @
      (if 6 < length (split CHR '' '' m) then ''...'' else [])"
    by (simp add: generateTaskTitle_def slice0_def)
  have b: "count_list m CHR '' '' \<le> 5 \<longrightarrow> generateTaskTitle m = m"
    using generateTaskTitle_short [of m] by blast
  have c: "\<forall>p rest. m = p @ CHR '' '' # rest \<and> count_list p CHR '' '' = 5 \<longrightarrow>
      generateTaskTitle m = p @ ''...''"
    using generateTaskTitle_long [of m] by blast
  show "case startNewTask clk (Some m) s of
        (r, s') \<Rightarrow>
          title (heap s' ! r) =
            join '' '' (take 6 (split CHR '' '' m)) @
            (if 6 < length (split CHR '' '' m) then ''...'' else []) \<and>
          (count_list m CHR '' '' \<le> 5 \<longrightarrow> title (heap s' ! r) = m) \<and>
          (\<forall>p rest. m = p @ CHR '' '' # rest \<and> count_list p CHR '' '' = 5 \<longrightarrow>
                      title (heap s' ! r) = p @ ''...'')"
    unfolding case_prod_beta t using a b c by blast
next
  show "length (split CHR '' '' m) = count_list m CHR '' '' + 1"
    by (simp add: length_split)
next
  show "join '' '' (split CHR '' '' m) = m"
    by (rule join_split)
next
  show "\<forall>p \<in> set (split CHR '' '' m). CHR '' '' \<notin> set p"
    using split_pieces_no_sep by blast
qed

theorem startNewTask_title_C3_witness:
  "''a b c d e f g'' \<noteq> [] \<and>
   ''a b c d e f g'' = ''a b c d e f'' @ CHR '' '' # ''g'' \<and>
   count_list ''a b c d e f'' CHR '' '' = 5 \<and>
   title (heap (snd (startNewTask clock_running (Some ''a b c d e f g'') (new_ClineCore config0))) !
          fst (startNewTask clock_running (Some ''a b c d e f g'') (new_ClineCore config0)))
     = ''a b c d e f...'' \<and>
   title (heap (snd (startNewTask clock_running (Some ''a b c d e f'') (new_ClineCore config0))) !
          fst (startNewTask clock_running (Some ''a b c d e f'') (new_ClineCore config0)))
     = ''a b c d e f'' \<and>
   split CHR '' '' ''a b c d e f g'' = [''a'', ''b'', ''c'', ''d'', ''e'', ''f'', ''g'']"
  using startNewTask_title_C3 [where m = "''a b c d e f g''" and clk = clock_running
      and s = "new_ClineCore config0"]
    startNewTask_title_C3 [where m = "''a b c d e f''" and clk = clock_running
      and s = "new_ClineCore config0"]
  by (simp add: case_prod_beta)

text \<open>
  The three commands of the adapter do not fail when their context is missing: with no
  notebook, cell or selection each of them returns normally, and the error that the
  claim calls \<open>MissingContextError\<close> is only written to the console. The same happens
  to the \<open>NoActiveTaskError\<close> of \<open>sendMessage\<close> when there is a notebook but no task.
\<close>

theorem adapter_errors_C7_counterexample:
  "analyzeCurrentNotebook clock_running api_no_shell (new_ClineCore config0) =
     (Inr (), (new_ClineCore config0)
        \<lparr>console := [LogError ''Failed to analyze notebook:''
                       (MissingContextError ''No active notebook found'')]\<rparr>) \<and>
   explainSelectedCell clock_running api_no_shell (new_ClineCore config0) =
     (Inr (), (new_ClineCore config0)
        \<lparr>console := [LogError ''Failed to explain cell:''
                       (MissingContextError ''No cell selected'')]\<rparr>) \<and>
   optimizeSelectedCode clock_running api_no_shell (new_ClineCore config0) =
     (Inr (), (new_ClineCore config0)
        \<lparr>console := [LogError ''Failed to optimize code:''
                       (MissingContextError ''No code selected'')]\<rparr>) \<and>
   analyzeCurrentNotebook clock_running api_empty_widget (new_ClineCore config0) =
     (Inr (), (new_ClineCore config0)
        \<lparr>console := [LogError ''Failed to analyze notebook:'' NoActiveTaskError]\<rparr>)"
  by (simp add: analyzeCurrentNotebook_def explainSelectedCell_def optimizeSelectedCode_def
      try_catch_console_error_def getCurrentNotebook_def getSelectedCell_def getSelectedCode_def
      api_no_shell_def api_empty_widget_def new_ClineCore_def MissingContextError_def
      NoActiveTaskError_def await_sendMessage_def sendMessage_def)

text \<open>
  Claim C7, as amended. Each adapter operation (analyze-notebook,
  explain-selected-cell, optimize-selected-code) always completes normally: every
  error raised inside it is caught by the operation itself and written to the console
  by \<open>console.error\<close>, none is propagated to the caller. When the required context is
  absent the operation raises \<open>MissingContextError\<close> internally and does not call the
  controller: the state after the call is the state before it, but for the console
  entry. When the context is present and no task is current, the \<open>NoActiveTaskError\<close>
  of \<open>sendMessage\<close> is caught and logged in the same way.
\<close>

theorem adapter_operations_C7:
  "fst (analyzeCurrentNotebook clk api s) = Inr () \<and>
   fst (explainSelectedCell clk api s) = Inr () \<and>
   fst (optimizeSelectedCode clk api s) = Inr () \<and>
   (getCurrentNotebook api = None \<longrightarrow>
      snd (analyzeCurrentNotebook clk api s) =
        s\<lparr>console := console s @
           [LogError ''Failed to analyze notebook:''
              (MissingContextError ''No active notebook found'')]\<rparr>) \<and>
   (getSelectedCell api = None \<longrightarrow>
      snd (explainSelectedCell clk api s) =
        s\<lparr>console := console s @
           [LogError ''Failed to explain cell:'' (MissingContextError ''No cell selected'')]\<rparr>) \<and>
   (getSelectedCode api = None \<longrightarrow>
      snd (optimizeSelectedCode clk api s) =
        s\<lparr>console := console s @
           [LogError ''Failed to optimize code:'' (MissingContextError ''No code selected'')]\<rparr>) \<and>
   (currentTask s = None \<and> getCurrentNotebook api \<noteq> None \<longrightarrow>
      snd (analyzeCurrentNotebook clk api s) =
        s\<lparr>console := console s @ [LogError ''Failed to analyze notebook:'' NoActiveTaskError]\<rparr>) \<and>
   (currentTask s = None \<and> getSelectedCode api \<noteq> None \<longrightarrow>
      snd (optimizeSelectedCode clk api s) =
        s\<lparr>console := console s @ [LogError ''Failed to optimize code:'' NoActiveTaskError]\<rparr>) \<and>
   (currentTask s = None \<and> (\<exists>cell code. getSelectedCell api = Some cell \<and> source cell = Some code) \<longrightarrow>
      snd (explainSelectedCell clk api s) =
        s\<lparr>console := console s @ [LogError ''Failed to explain cell:'' NoActiveTaskError]\<rparr>)"
proof -
  have returns:
    "fst (analyzeCurrentNotebook clk api s) = Inr ()"
    "fst (explainSelectedCell clk api s) = Inr ()"
    "fst (optimizeSelectedCode clk api s) = Inr ()"
    by (simp_all add: analyzeCurrentNotebook_def explainSelectedCell_def
        optimizeSelectedCode_def try_catch_returns)
  have absent:
    "getCurrentNotebook api = None \<longrightarrow>
      snd (analyzeCurrentNotebook clk api s) =
        s\<lparr>console := console s @
           [LogError ''Failed to analyze notebook:''
              (MissingContextError ''No active notebook found'')]\<rparr>"
    "getSelectedCell api = None \<longrightarrow>
      snd (explainSelectedCell clk api s) =
        s\<lparr>console := console s @
           [LogError ''Failed to explain cell:'' (MissingContextError ''No cell selected'')]\<rparr>"
    "getSelectedCode api = None \<longrightarrow>
      snd (optimizeSelectedCode clk api s) =
        s\<lparr>console := console s @
           [LogError ''Failed to optimize code:'' (MissingContextError ''No code selected'')]\<rparr>"
    by (simp_all add: analyzeCurrentNotebook_def explainSelectedCell_def
        optimizeSelectedCode_def try_catch_console_error_def MissingContextError_def)
  have no_task:
    "currentTask s = None \<and> getCurrentNotebook api \<noteq> None \<longrightarrow>
      snd (analyzeCurrentNotebook clk api s) =
        s\<lparr>console := console s @ [LogError ''Failed to analyze notebook:'' NoActiveTaskError]\<rparr>"
    "currentTask s = None \<and> getSelectedCode api \<noteq> None \<longrightarrow>
      snd (optimizeSelectedCode clk api s) =
        s\<lparr>console := console s @ [LogError ''Failed to optimize code:'' NoActiveTaskError]\<rparr>"
    "currentTask s = None \<and> (\<exists>cell code. getSelectedCell api = Some cell \<and> source cell = Some code) \<longrightarrow>
      snd (explainSelectedCell clk api s) =
        s\<lparr>console := console s @ [LogError ''Failed to explain cell:'' NoActiveTaskError]\<rparr>"
    by (auto simp add: analyzeCurrentNotebook_def explainSelectedCell_def
        optimizeSelectedCode_def try_catch_console_error_def await_sendMessage_no_task Let_def)
  from returns absent no_task show ?thesis by blast
qed

theorem adapter_operations_C7_witness:
  "getCurrentNotebook api_no_shell = None \<and>
   getSelectedCell api_no_shell = None \<and>
   getSelectedCode api_no_shell = None \<and>
   currentTask (new_ClineCore config0) = None \<and>
   getCurrentNotebook api_empty_widget \<noteq> None \<and>
   fst (analyzeCurrentNotebook clock_running api_no_shell (new_ClineCore config0)) = Inr () \<and>
   console (snd (analyzeCurrentNotebook clock_running api_no_shell (new_ClineCore config0))) =
     [LogError ''Failed to analyze notebook:'' (Error ''No active notebook found'')] \<and>
   console (snd (explainSelectedCell clock_running api_no_shell (new_ClineCore config0))) =
     [LogError ''Failed to explain cell:'' (Error ''No cell selected'')] \<and>
   console (snd (optimizeSelectedCode clock_running api_no_shell (new_ClineCore config0))) =
     [LogError ''Failed to optimize code:'' (Error ''No code selected'')] \<and>
   console (snd (analyzeCurrentNotebook clock_running api_empty_widget (new_ClineCore config0))) =
     [LogError ''Failed to analyze notebook:'' (Error ''No active task. Start a new task first.'')] \<and>
   ticks (snd (analyzeCurrentNotebook clock_running api_no_shell (new_ClineCore config0))) = 0"
  using adapter_operations_C7 [where clk = clock_running and api = api_no_shell
      and s = "new_ClineCore config0"]
    adapter_operations_C7 [where clk = clock_running and api = api_empty_widget
      and s = "new_ClineCore config0"]
  by (simp add: getCurrentNotebook_def getSelectedCell_def getSelectedCode_def api_no_shell_def
      api_empty_widget_def new_ClineCore_def MissingContextError_def NoActiveTaskError_def)

text \<open>
  Claim C5 says that every message append refreshes \<open>updatedAt\<close>, in particular that
  \<open>sendMessage\<close> updates it again after the assistant message is appended. The code
  refreshes it once, after the user message. With a clock that advances at every read,
  after \<open>startNewTask("x")\<close> and \<open>sendMessage("y")\<close> the task has \<open>updatedAt = 1007\<close>
  while its last message was appended at \<open>1009\<close>; and right after \<open>startNewTask("x")\<close>
  it has \<open>updatedAt = 1002\<close> while its initial message was appended at \<open>1004\<close>.
  (That \<open>createdAt\<close> never changes and never exceeds \<open>updatedAt\<close> under a monotone
  clock is \<open>same_task\<close> in C6 and lemma \<open>createdAt_le_updatedAt\<close>.)
\<close>

theorem updatedAt_not_refreshed_C5:
  "updatedAt (heap (snd (sendMessage clock_running ''y'' None
       (snd (startNewTask clock_running (Some ''x'') (new_ClineCore config0))))) ! 0) = 1007 \<and>
   map timestamp (messages (heap (snd (sendMessage clock_running ''y'' None
       (snd (startNewTask clock_running (Some ''x'') (new_ClineCore config0))))) ! 0)) =
     [1004, 1006, 1009] \<and>
   updatedAt (heap (snd (startNewTask clock_running (Some ''x'') (new_ClineCore config0))) ! 0) = 1002 \<and>
   map timestamp (messages (heap (snd (startNewTask clock_running (Some ''x'') (new_ClineCore config0))) ! 0)) =
     [1004]"
  by (simp add: startNewTask_eq initial_task_def new_ClineCore_def sendMessage_def now_def
      push_message_def set_updatedAt_def Let_def clock_running_def)

text \<open>
  Claim C8 says that all message ids are pairwise distinct. An id is "msg-" followed
  by the millisecond of the clock (plus one for the assistant reply), so two messages
  made in the same millisecond share their id: the initial message of
  \<open>startNewTask("x")\<close> and the user message of a \<open>sendMessage("y")\<close> that follows in the
  same millisecond; and the assistant reply of one \<open>sendMessage\<close> and the user message
  of the next call one millisecond later. (That a task id differs from every message
  id is lemma \<open>task_id_not_msg_id\<close>.)
\<close>

theorem message_ids_collide_C8:
  "map msg_id (messages (heap (snd (sendMessage clock_still ''y'' None
       (snd (startNewTask clock_still (Some ''x'') (new_ClineCore config0))))) ! 0)) =
     [''msg-1000'', ''msg-1000'', ''msg-1001''] \<and>
   map msg_id (messages (heap (snd (sendMessage clock_next_ms ''z'' None
       (snd (sendMessage clock_next_ms ''y'' None
          (snd (startNewTask clock_next_ms None (new_ClineCore config0))))))) ! 0)) =
     [''msg-1000'', ''msg-1001'', ''msg-1001'', ''msg-1002'']"
  by (simp add: startNewTask_eq initial_task_def new_ClineCore_def sendMessage_def now_def
      push_message_def set_updatedAt_def Let_def clock_still_def clock_next_ms_def
      show_int_def show_nat.simps digit_char_def)

text \<open>
  Claim C9 says that the first language override met in the code cells wins. The code
  tests \<open>language === 'python'\<close> to know whether an override was already taken, so an
  override that is "python" itself does not stop a later one: for a notebook whose
  first code cell declares "python" and whose later code cell declares "r", the
  language returned is "r". The content is the marked text of the code cells in
  display order, as the claim says.
\<close>

theorem first_language_override_C9:
  "getActiveDocument api_two_languages =
     Some \<lparr>path = ''analysis.ipynb'',
           doc_content = ''# Cell 1'' @ [CHR 0x0A] @ ''x = 1'' @ [CHR 0x0A, CHR 0x0A] @
                         ''# Cell 3'' @ [CHR 0x0A] @ ''y <- 2'' @ [CHR 0x0A, CHR 0x0A],
           language = ''r''\<rparr>"
  by (simp add: getActiveDocument_def api_two_languages_def or_default_def Let_def
      show_nat.simps digit_char_def)

end
